theory Spec2Isabelle
  imports Main
begin

section \<open>The action registry of Tune-Mountain-input\<close>

text \<open>
  The repository is one class, \<open>ActionRegistry\<close> (\<open>src/ActionRegistry.js\<close>): a table
  from key identifiers to arrays of action names, with one method that appends to the
  array of a key, one that replaces the entry of a key, and two queries.

  The table is a JavaScript object used as a dictionary, and three things of the
  language show through it. Arrays are objects: the table holds references to them,
  \<open>push\<close> changes the array in place, and two keys may hold the same array. A read
  \<open>table[key]\<close> that finds no entry goes on to the prototype of the table, and an
  assignment to the key \<open>"__proto__"\<close> may replace that prototype. And the table may
  be \<open>null\<close>, or an object that takes no new entries. The model keeps the arrays in
  a store, gives the table its prototype, and has two levels: \<open>state\<close> is a registry
  whose table is an object that can be extended, and \<open>registry\<close> is whatever the
  constructor was given.
\<close>

subsection \<open>Values and the store\<close>

type_synonym ref = nat

text \<open>
  The values a table entry or an argument may be. \<open>JNum\<close> stands for the integral
  numbers only. \<open>JSym\<close> is a symbol, with its description. \<open>JFun\<close> is a built-in
  function, named by the path it is found at, and \<open>JObjectPrototype\<close> is the object
  \<open>Object.prototype\<close>. \<open>JObj\<close> is any other object that is not an array; of such an
  object the model keeps what its conversion to a string gives, \<open>None\<close> when the
  conversion throws (as for \<open>Object.create(null)\<close>).
\<close>

datatype jsval =
    JUndefined
  | JNull
  | JBool bool
  | JNum int
  | JStr string
  | JSym string
  | JArr ref
  | JObj "string option"
  | JFun string
  | JObjectPrototype

text \<open>
  The prototype of the table: \<open>Object.prototype\<close>, as for \<open>{}\<close> and every object
  literal; none; or an array.
\<close>

datatype prototype = ObjectPrototype | NullPrototype | ArrayObject ref

text \<open>
  \<open>bindings\<close> holds the own entries of \<open>this.bindings\<close> and \<open>proto\<close> is its
  prototype. \<open>heap\<close> gives the elements of every array, and the references below
  \<open>next_ref\<close> are the ones in use. Entries are plain writable properties, and arrays
  have their elements and their length and nothing else of their own.
\<close>

record state =
  bindings :: "string \<rightharpoonup> jsval"
  proto :: prototype
  heap :: "ref \<Rightarrow> jsval list"
  next_ref :: ref

text \<open>What the language's conversion to boolean gives (\<open>!x\<close>, \<open>x || y\<close>, \<open>x && y\<close>).\<close>

fun truthy :: "jsval \<Rightarrow> bool" where
  "truthy JUndefined = False"
| "truthy JNull = False"
| "truthy (JBool b) = b"
| "truthy (JNum n) = (n \<noteq> 0)"
| "truthy (JStr s) = (s \<noteq> [])"
| "truthy (JSym d) = True"
| "truthy (JArr r) = True"
| "truthy (JObj c) = True"
| "truthy (JFun f) = True"
| "truthy JObjectPrototype = True"

text \<open>\<open>Array.isArray\<close>.\<close>

fun isArray :: "jsval \<Rightarrow> bool" where
  "isArray (JArr r) = True"
| "isArray v = False"

text \<open>
  Whether the conversion to a string in a template literal succeeds. It throws a
  \<open>TypeError\<close> for a symbol and for an object that has neither \<open>toString\<close> nor
  \<open>valueOf\<close>. The class converts only values that are not arrays (line 57); the
  equation for arrays is there to make the function total.
\<close>

fun converts :: "jsval \<Rightarrow> bool" where
  "converts (JSym d) = False"
| "converts (JObj c) = (c \<noteq> None)"
| "converts v = True"

subsection \<open>Reading a property\<close>

text \<open>The string-keyed members of \<open>Object.prototype\<close>, the accessor \<open>__proto__\<close> apart.\<close>

definition object_prototype_names :: "string list" where
  "object_prototype_names =
     [''constructor'', ''hasOwnProperty'', ''isPrototypeOf'', ''propertyIsEnumerable'',
      ''toLocaleString'', ''toString'', ''valueOf'', ''__defineGetter__'',
      ''__defineSetter__'', ''__lookupGetter__'', ''__lookupSetter__'']"

text \<open>The string-keyed members of \<open>Array.prototype\<close> (ECMAScript 2023), \<open>length\<close> apart.\<close>

definition array_prototype_names :: "string list" where
  "array_prototype_names =
     [''at'', ''concat'', ''constructor'', ''copyWithin'', ''entries'', ''every'', ''fill'',
      ''filter'', ''find'', ''findIndex'', ''findLast'', ''findLastIndex'', ''flat'',
      ''flatMap'', ''forEach'', ''includes'', ''indexOf'', ''join'', ''keys'',
      ''lastIndexOf'', ''map'', ''pop'', ''push'', ''reduce'', ''reduceRight'', ''reverse'',
      ''shift'', ''slice'', ''some'', ''sort'', ''splice'', ''toLocaleString'',
      ''toReversed'', ''toSorted'', ''toSpliced'', ''toString'', ''unshift'', ''values'',
      ''with'']"

text \<open>The prototype as a value, which is what the getter of \<open>__proto__\<close> returns.\<close>

fun proto_value :: "prototype \<Rightarrow> jsval" where
  "proto_value ObjectPrototype = JObjectPrototype"
| "proto_value NullPrototype = JNull"
| "proto_value (ArrayObject r) = JArr r"

text \<open>What a read finds at \<open>Object.prototype\<close>, the end of every chain that has one.\<close>

definition from_object_prototype :: "state \<Rightarrow> string \<Rightarrow> jsval option" where
  "from_object_prototype st key =
     (if key = ''__proto__'' then Some (proto_value (proto st))
      else if key \<in> set object_prototype_names then Some (JFun (''Object.prototype.'' @ key))
      else None)"

text \<open>
  An array index is a decimal numeral without a leading zero. An array has its elements
  under their indices, and its length under \<open>length\<close>.
\<close>

definition is_digit :: "char \<Rightarrow> bool" where
  "is_digit c = (48 \<le> (of_char c :: nat) \<and> (of_char c :: nat) \<le> 57)"

definition array_index :: "string \<Rightarrow> nat option" where
  "array_index s =
     (if s = ''0'' then Some 0
      else if s \<noteq> [] \<and> list_all is_digit s \<and> hd s \<noteq> CHR ''0''
      then Some (foldl (\<lambda>n c. 10 * n + (of_char c - 48)) 0 s)
      else None)"

definition from_array :: "jsval list \<Rightarrow> string \<Rightarrow> jsval option" where
  "from_array xs key =
     (case array_index key of
        Some i \<Rightarrow> if i < length xs then Some (xs ! i) else None
      | None \<Rightarrow> if key = ''length'' then Some (JNum (int (length xs))) else None)"

text \<open>
  What a read finds beyond the table's own entries: along the chain that starts at the
  prototype of the table, \<open>None\<close> when no object of the chain has the property.
\<close>

definition inherited :: "state \<Rightarrow> string \<Rightarrow> jsval option" where
  "inherited st key =
     (case proto st of
        NullPrototype \<Rightarrow> None
      | ObjectPrototype \<Rightarrow> from_object_prototype st key
      | ArrayObject r \<Rightarrow>
          (case from_array (heap st r) key of
             Some v \<Rightarrow> Some v
           | None \<Rightarrow>
               if key \<in> set array_prototype_names
               then Some (JFun (''Array.prototype.'' @ key))
               else from_object_prototype st key))"

text \<open>\<open>this.bindings[key]\<close>, read: the own entry, or the inherited one, or \<open>undefined\<close>.\<close>

definition get_prop :: "state \<Rightarrow> string \<Rightarrow> jsval" where
  "get_prop st key =
     (case bindings st key of
        Some v \<Rightarrow> v
      | None \<Rightarrow> (case inherited st key of Some v \<Rightarrow> v | None \<Rightarrow> JUndefined))"

subsection \<open>Arrays\<close>

text \<open>The array literal \<open>[]\<close>: a new, empty array, at a reference not yet in use.\<close>

definition new_array :: "state \<Rightarrow> ref \<times> state" where
  "new_array st =
     (next_ref st, st\<lparr>heap := (heap st)(next_ref st := []), next_ref := Suc (next_ref st)\<rparr>)"

text \<open>
  The two things that can be thrown: the \<open>Error\<close> that \<open>addBindKeyTo\<close> raises, which
  reports the offending value, and the \<open>TypeError\<close> of the language.
\<close>

datatype error = BindingNotArray jsval | TypeError

text \<open>
  On a table that can be extended a method either throws, leaving the state as it is at
  that moment, or returns with a new state: \<open>Inl (e, st)\<close> and \<open>Inr st\<close>.
\<close>

type_synonym outcome = "(error \<times> state) + state"

text \<open>
  \<open>target.push(x1, ..., xn)\<close>: appends in place to the array \<open>target\<close> refers to. A
  value that has no method \<open>push\<close> gives a \<open>TypeError\<close>.
\<close>

fun push :: "state \<Rightarrow> jsval \<Rightarrow> jsval list \<Rightarrow> outcome" where
  "push st (JArr r) xs = Inr (st\<lparr>heap := (heap st)(r := heap st r @ xs)\<rparr>)"
| "push st v xs = Inl (TypeError, st)"

subsection \<open>The class, on a table that can be extended\<close>

text \<open>
  \<open>constructor (bindings = {})\<close>: the argument, or an empty table when there is none.
  The table given is an object with the entries given, whose prototype is
  \<open>Object.prototype\<close> as that of \<open>{}\<close> and of an object literal is. The first two
  arguments are the arrays that exist when the constructor runs.
\<close>

definition constructor :: "(ref \<Rightarrow> jsval list) \<Rightarrow> ref \<Rightarrow> (string \<rightharpoonup> jsval) option \<Rightarrow> state" where
  "constructor h n arg =
     \<lparr>bindings = (case arg of None \<Rightarrow> Map.empty | Some b \<Rightarrow> b), proto = ObjectPrototype,
      heap = h, next_ref = n\<rparr>"

text \<open>
  \<open>addBindKeyTo\<close>, branch by branch. The local variable \<open>binding\<close> is the value read
  from the table or, in the first branch, a new array; nothing assigns to
  \<open>this.bindings\<close>. In the second branch the template literal converts \<open>binding\<close> to
  a string before the \<open>Error\<close> is made, and that conversion may throw itself. The
  arguments of \<open>push\<close> are the elements of \<open>actionOrActionArray\<close> when it is an
  array (the spread is read before \<open>push\<close> runs), and the value itself otherwise.
\<close>

definition push_args :: "state \<Rightarrow> jsval \<Rightarrow> jsval list" where
  "push_args st actionOrActionArray =
     (case actionOrActionArray of JArr r \<Rightarrow> heap st r | v \<Rightarrow> [v])"

definition addBindKeyTo :: "state \<Rightarrow> string \<Rightarrow> jsval \<Rightarrow> outcome" where
  "addBindKeyTo st keyValue actionOrActionArray =
     (let binding = get_prop st keyValue in
      if \<not> truthy binding \<and> \<not> isArray binding then
        (case new_array st of (r, st1) \<Rightarrow>
           push st1 (JArr r) (push_args st1 actionOrActionArray))
      else if truthy binding \<and> \<not> isArray binding then
        (if converts binding then Inl (BindingNotArray binding, st) else Inl (TypeError, st))
      else push st binding (push_args st actionOrActionArray))"

text \<open>
  \<open>this.bindings[keyValue] = actionArray\<close>. When the key is \<open>"__proto__"\<close>, the table
  has no entry of that name and its chain ends in \<open>Object.prototype\<close>, the assignment
  runs the setter found there: an object or \<open>null\<close> becomes the prototype of the
  table, and any other value is ignored. In every other case the assignment writes the
  table's own entry.

  A function, or an object of the kind \<open>JObj\<close>, as the new prototype is outside what
  \<open>state\<close> describes; \<open>setBindingTo\<close> is then not followed, and the call on a
  \<open>registry\<close> below says so.
\<close>

datatype proto_arg = Ignored | Becomes prototype | NotFollowed

fun as_prototype :: "jsval \<Rightarrow> proto_arg" where
  "as_prototype JNull = Becomes NullPrototype"
| "as_prototype (JArr r) = Becomes (ArrayObject r)"
| "as_prototype JObjectPrototype = Becomes ObjectPrototype"
| "as_prototype (JObj c) = NotFollowed"
| "as_prototype (JFun f) = NotFollowed"
| "as_prototype v = Ignored"

definition reaches_setter :: "state \<Rightarrow> string \<Rightarrow> bool" where
  "reaches_setter st key \<longleftrightarrow>
     key = ''__proto__'' \<and> bindings st key = None \<and> proto st \<noteq> NullPrototype"

definition setBindingTo :: "state \<Rightarrow> string \<Rightarrow> jsval \<Rightarrow> state" where
  "setBindingTo st keyValue actionArray =
     (if reaches_setter st keyValue then
        (case as_prototype actionArray of
           Becomes p \<Rightarrow> st\<lparr>proto := p\<rparr>
         | Ignored \<Rightarrow> st
         | NotFollowed \<Rightarrow> st)
      else st\<lparr>bindings := (bindings st)(keyValue \<mapsto> actionArray)\<rparr>)"

text \<open>\<open>this.bindings[keyValue] || null\<close>.\<close>

definition getActionsForKey :: "state \<Rightarrow> string \<Rightarrow> jsval" where
  "getActionsForKey st keyValue =
     (let v = get_prop st keyValue in if truthy v then v else JNull)"

definition isBound :: "state \<Rightarrow> string \<Rightarrow> bool" where
  "isBound st keyValue = truthy (getActionsForKey st keyValue)"

text \<open>
  What a caller sees in a returned value: the elements of the array it refers to, when
  it is an array.
\<close>

fun elements :: "state \<Rightarrow> jsval \<Rightarrow> jsval list option" where
  "elements st (JArr r) = Some (heap st r)"
| "elements st v = None"

text \<open>
  A state is well formed when the arrays that the table refers to, in its entries or as
  its prototype, exist, so that a new array is a different one.
\<close>

definition wf_state :: "state \<Rightarrow> bool" where
  "wf_state st \<longleftrightarrow>
     (\<forall>k r. bindings st k = Some (JArr r) \<longrightarrow> r < next_ref st) \<and>
     (\<forall>r. proto st = ArrayObject r \<longrightarrow> r < next_ref st)"

text \<open>Whether a value is the array that is the prototype of the table.\<close>

definition is_prototype :: "state \<Rightarrow> jsval \<Rightarrow> bool" where
  "is_prototype st v = (case v of JArr r \<Rightarrow> proto st = ArrayObject r | _ \<Rightarrow> False)"

subsection \<open>The class, on whatever the constructor was given\<close>

text \<open>
  The constructor stores its argument as it is. \<open>kind\<close> says what \<open>this.bindings\<close>
  is: \<open>null\<close> (after \<open>new ActionRegistry(null)\<close>), an object that can be extended,
  one that cannot (\<open>Object.preventExtensions\<close>, \<open>Object.seal\<close>), or a frozen one
  (\<open>Object.freeze\<close>). \<open>inner\<close> holds the entries, the prototype and the arrays; with
  a table that is \<open>null\<close> its entries and prototype stand for nothing.
\<close>

datatype table_kind = NullTable | Extensible | NonExtensible | Frozen

record registry =
  kind :: table_kind
  inner :: state

text \<open>
  A call throws, or returns a value, or leaves what the model follows (\<open>Unmodelled\<close>).
  The two methods without a \<open>return\<close> statement return \<open>undefined\<close>.
\<close>

datatype result = Throws error registry | Returns jsval registry | Unmodelled

text \<open>
  The reads. \<open>null[key]\<close> throws a \<open>TypeError\<close>; a read from an object does not
  throw, whether or not the object can be extended.
\<close>

definition call_getActionsForKey :: "registry \<Rightarrow> string \<Rightarrow> result" where
  "call_getActionsForKey reg keyValue =
     (if kind reg = NullTable then Throws TypeError reg
      else (let v = get_prop (inner reg) keyValue in
            Returns (if truthy v then v else JNull) reg))"

definition call_isBound :: "registry \<Rightarrow> string \<Rightarrow> result" where
  "call_isBound reg keyValue =
     (case call_getActionsForKey reg keyValue of
        Throws e reg' \<Rightarrow> Throws e reg'
      | Returns v reg' \<Rightarrow> Returns (JBool (truthy v)) reg'
      | Unmodelled \<Rightarrow> Unmodelled)"

text \<open>
  The assignment, in the strict mode that a class body has. On \<open>null\<close> it throws. On
  an own entry it writes, unless the table is frozen. Through the setter of
  \<open>__proto__\<close> it ignores a value that is neither an object nor \<open>null\<close>, keeps a
  prototype that is already the one given, installs another one when the table can be
  extended, and throws otherwise. For a key that has no own entry it adds one when the
  table can be extended, and throws otherwise.
\<close>

definition call_setBindingTo :: "registry \<Rightarrow> string \<Rightarrow> jsval \<Rightarrow> result" where
  "call_setBindingTo reg keyValue actionArray =
     (let st = inner reg in
      if kind reg = NullTable then Throws TypeError reg
      else if bindings st keyValue \<noteq> None then
        (if kind reg = Frozen then Throws TypeError reg
         else Returns JUndefined
                (reg\<lparr>inner := st\<lparr>bindings := (bindings st)(keyValue \<mapsto> actionArray)\<rparr>\<rparr>))
      else if reaches_setter st keyValue then
        (case as_prototype actionArray of
           Ignored \<Rightarrow> Returns JUndefined reg
         | Becomes p \<Rightarrow>
             if p = proto st then Returns JUndefined reg
             else if kind reg = Extensible then Returns JUndefined (reg\<lparr>inner := st\<lparr>proto := p\<rparr>\<rparr>)
             else Throws TypeError reg
         | NotFollowed \<Rightarrow> if kind reg = Extensible then Unmodelled else Throws TypeError reg)
      else if kind reg = Extensible then
        Returns JUndefined
          (reg\<lparr>inner := st\<lparr>bindings := (bindings st)(keyValue \<mapsto> actionArray)\<rparr>\<rparr>)
      else Throws TypeError reg)"

text \<open>\<open>addBindKeyTo\<close> reads the table and changes arrays only.\<close>

definition call_addBindKeyTo :: "registry \<Rightarrow> string \<Rightarrow> jsval \<Rightarrow> result" where
  "call_addBindKeyTo reg keyValue actionOrActionArray =
     (if kind reg = NullTable then Throws TypeError reg
      else (case addBindKeyTo (inner reg) keyValue actionOrActionArray of
              Inl (e, st') \<Rightarrow> Throws e (reg\<lparr>inner := st'\<rparr>)
            | Inr st' \<Rightarrow> Returns JUndefined (reg\<lparr>inner := st'\<rparr>)))"

section \<open>Properties\<close>

subsection \<open>Helper facts\<close>

lemma isArray_truthy: "isArray v \<Longrightarrow> truthy v"
  by (cases v) simp_all

lemma isArray_iff: "isArray v \<longleftrightarrow> (\<exists>r. v = JArr r)"
  by (cases v) simp_all

lemma get_prop_own: "bindings st k = Some v \<Longrightarrow> get_prop st k = v"
  by (simp add: get_prop_def)

lemma array_index_proto [simp]: "array_index ''__proto__'' = None"
  by (simp add: array_index_def is_digit_def)

lemma addBindKeyTo_bound_array:
  "get_prop st k = JArr r \<Longrightarrow>
   addBindKeyTo st k a = Inr (st\<lparr>heap := (heap st)(r := heap st r @ push_args st a)\<rparr>)"
  by (simp add: addBindKeyTo_def)

lemma addBindKeyTo_falsy:
  "\<not> truthy (get_prop st k) \<Longrightarrow>
   addBindKeyTo st k a =
     Inr (st\<lparr>heap := (heap st)(next_ref st := push_args (snd (new_array st)) a),
            next_ref := Suc (next_ref st)\<rparr>)"
  using isArray_truthy [of "get_prop st k"]
  by (auto simp add: addBindKeyTo_def new_array_def Let_def)

lemma addBindKeyTo_truthy_scalar:
  "truthy (get_prop st k) \<Longrightarrow> \<not> isArray (get_prop st k) \<Longrightarrow>
   addBindKeyTo st k a =
     (if converts (get_prop st k) then Inl (BindingNotArray (get_prop st k), st)
      else Inl (TypeError, st))"
  by (simp add: addBindKeyTo_def Let_def)

text \<open>
  The three ways \<open>addBindKeyTo\<close> can go: a new array, the throw statement, or an
  append to the array that the read gave.
\<close>

lemma addBindKeyTo_cases:
  obtains (fresh) "\<not> truthy (get_prop st k)"
  | (scalar) "truthy (get_prop st k)" and "\<not> isArray (get_prop st k)"
  | (array) r where "get_prop st k = JArr r"
  by (cases "truthy (get_prop st k)"; cases "isArray (get_prop st k)")
     (auto simp add: isArray_iff)

text \<open>The table and its prototype are the same after \<open>addBindKeyTo\<close>, however it ends.\<close>

lemma addBindKeyTo_table:
  "bindings (case addBindKeyTo st k a of Inl (e, st') \<Rightarrow> st' | Inr st' \<Rightarrow> st') = bindings st \<and>
   proto (case addBindKeyTo st k a of Inl (e, st') \<Rightarrow> st' | Inr st' \<Rightarrow> st') = proto st"
proof (cases st k rule: addBindKeyTo_cases)
  case fresh
  then show ?thesis by (simp add: addBindKeyTo_falsy)
next
  case scalar
  then show ?thesis by (simp add: addBindKeyTo_truthy_scalar)
next
  case (array r)
  then show ?thesis by (simp add: addBindKeyTo_bound_array)
qed

text \<open>
  After \<open>setBindingTo\<close> with an array, a read of the key gives that array, whatever
  the arrays hold.
\<close>

lemma get_prop_setBindingTo_array:
  "get_prop ((setBindingTo st k (JArr r))\<lparr>heap := h\<rparr>) k = JArr r"
proof (cases "reaches_setter st k")
  case True
  have i: "inherited (st\<lparr>proto := ArrayObject r, heap := h\<rparr>) ''__proto__'' = Some (JArr r)"
    by (simp add: inherited_def from_array_def from_object_prototype_def
        array_prototype_names_def)
  from True have "k = ''__proto__''" and "bindings st ''__proto__'' = None"
    by (auto simp add: reaches_setter_def)
  with True i show ?thesis
    by (simp add: setBindingTo_def get_prop_def)
next
  case False
  then show ?thesis by (simp add: setBindingTo_def get_prop_def)
qed

lemma heap_setBindingTo: "heap (setBindingTo st k v) = heap st"
  by (simp add: setBindingTo_def split: proto_arg.splits)

text \<open>On the table \<open>{}\<close>, what a key without an entry inherits.\<close>

lemma inherited_constructor:
  "inherited (constructor h n arg) k =
     (if k = ''__proto__'' then Some JObjectPrototype
      else if k \<in> set object_prototype_names then Some (JFun (''Object.prototype.'' @ k))
      else None)"
  by (simp add: inherited_def from_object_prototype_def constructor_def)

text \<open>
  A read depends on the entries, on the prototype and, when the prototype is an array
  and the key has no entry, on the elements of that array.
\<close>

lemma get_prop_cong:
  assumes "bindings st' = bindings st" and "proto st' = proto st"
    and "bindings st k \<noteq> None \<or> (\<forall>r. proto st = ArrayObject r \<longrightarrow> heap st' r = heap st r)"
  shows "get_prop st' k = get_prop st k"
proof (cases "bindings st k")
  case (Some v)
  with assms(1) show ?thesis by (simp add: get_prop_def)
next
  case None
  with assms(3) have "inherited st' k = inherited st k"
    using assms(2)
    by (cases "proto st")
       (simp_all add: inherited_def from_object_prototype_def split: option.splits)
  with None assms(1) show ?thesis by (simp add: get_prop_def)
qed

lemma get_prop_other_entry:
  "k \<noteq> k' \<Longrightarrow> get_prop (st\<lparr>bindings := (bindings st)(k \<mapsto> v)\<rparr>) k' = get_prop st k'"
proof -
  have "inherited (st\<lparr>bindings := (bindings st)(k \<mapsto> v)\<rparr>) k' = inherited st k'"
    by (cases "proto st")
       (simp_all add: inherited_def from_object_prototype_def split: option.splits)
  then show "k \<noteq> k' \<Longrightarrow> ?thesis"
    by (simp add: get_prop_def split: option.splits)
qed

lemma elements_heap_upd:
  "v \<noteq> JArr r \<Longrightarrow> elements (st\<lparr>heap := (heap st)(r := xs)\<rparr>) v = elements st v"
  by (cases v) simp_all

lemma elements_fresh:
  "v \<noteq> JArr (next_ref st) \<Longrightarrow>
   elements (st\<lparr>heap := (heap st)(next_ref st := xs), next_ref := n\<rparr>) v = elements st v"
  by (cases v) simp_all

subsection \<open>Appending to a key that has no entry\<close>

text \<open>
  Claim C1. On a key that has no entry, \<open>addBindKeyTo\<close> should create a list for the
  key and append to it, so that \<open>getActionsForKey\<close> gives \<open>["X"]\<close> for the action
  \<open>"X"\<close> and \<open>["X","Y"]\<close> for the sequence \<open>["X","Y"]\<close>. The code creates the new
  array in a local variable and appends to it, and never stores it in the table: on
  the empty registry both calls return normally and the query gives \<open>null\<close>
  afterwards. (The array \<open>["X","Y"]\<close> is the one at reference 0.)
\<close>

theorem addBindKeyTo_unbound_lost:
  "\<not> isl (addBindKeyTo (constructor (\<lambda>_. []) 0 None) ''A'' (JStr ''X'')) \<and>
   getActionsForKey
     (projr (addBindKeyTo (constructor (\<lambda>_. []) 0 None) ''A'' (JStr ''X''))) ''A'' = JNull \<and>
   \<not> isl (addBindKeyTo (constructor ((\<lambda>_. [])(0 := [JStr ''X'', JStr ''Y''])) 1 None)
            ''A'' (JArr 0)) \<and>
   getActionsForKey
     (projr (addBindKeyTo (constructor ((\<lambda>_. [])(0 := [JStr ''X'', JStr ''Y''])) 1 None)
               ''A'' (JArr 0))) ''A'' = JNull"
  by (simp add: addBindKeyTo_falsy get_prop_def getActionsForKey_def constructor_def
      inherited_def from_object_prototype_def object_prototype_names_def)

text \<open>
  Claim C5. Two calls \<open>addBindKeyTo(k, "Z")\<close> on the empty registry should give
  \<open>["Z","Z"]\<close>. In the code each call appends to a new array of its own that the
  table never holds: both calls return normally and the query gives \<open>null\<close>.
\<close>

theorem addBindKeyTo_twice_lost:
  "\<not> isl (addBindKeyTo (constructor (\<lambda>_. []) 0 None) ''A'' (JStr ''Z'')) \<and>
   \<not> isl (addBindKeyTo
            (projr (addBindKeyTo (constructor (\<lambda>_. []) 0 None) ''A'' (JStr ''Z'')))
            ''A'' (JStr ''Z'')) \<and>
   getActionsForKey
     (projr (addBindKeyTo
               (projr (addBindKeyTo (constructor (\<lambda>_. []) 0 None) ''A'' (JStr ''Z'')))
               ''A'' (JStr ''Z''))) ''A'' = JNull"
  by (simp add: addBindKeyTo_falsy get_prop_def getActionsForKey_def constructor_def
      inherited_def from_object_prototype_def object_prototype_names_def)

subsection \<open>The invalid-state error\<close>

text \<open>
  Claim C2, as stated: whenever the table holds under \<open>k\<close> a value that is present
  and is not an array, \<open>addBindKeyTo(k, a)\<close> raises the invalid-state error. The code
  tests the value for truth first, and a stored value that converts to false counts as
  no entry: with the empty string under \<open>"A"\<close> the call returns normally.
\<close>

theorem addBindKeyTo_empty_string_no_error:
  "bindings (constructor (\<lambda>_. []) 0 (Some [''A'' \<mapsto> JStr ''''])) ''A'' = Some (JStr '''') \<and>
   \<not> isArray (JStr '''') \<and>
   \<not> isl (addBindKeyTo (constructor (\<lambda>_. []) 0 (Some [''A'' \<mapsto> JStr ''''])) ''A''
            (JStr ''Crouch''))"
  by (simp add: addBindKeyTo_falsy get_prop_def constructor_def)

text \<open>
  When the value under the key cannot be converted to a string, the template literal
  of the throw statement throws the \<open>TypeError\<close> of the language instead.
\<close>

lemma addBindKeyTo_conversion_throws:
  assumes "bindings st k = Some v" and "truthy v" and "\<not> isArray v" and "\<not> converts v"
  shows "addBindKeyTo st k a = Inl (TypeError, st)"
  using assms by (simp add: addBindKeyTo_def get_prop_def)

text \<open>
  Claim C2, amended: whenever the table holds under \<open>k\<close> a value that converts to
  true, is not an array and can be converted to a string (every string, number,
  boolean and function can, and every object that has \<open>toString\<close> or \<open>valueOf\<close>; a
  symbol cannot), \<open>addBindKeyTo(k, a)\<close> raises the invalid-state error, which reports
  that value, and changes nothing: the state at the throw is the state before the
  call, and \<open>getActionsForKey(k)\<close> gives the stored value.
\<close>

theorem addBindKeyTo_invalid_state:
  assumes "bindings st k = Some v" and "truthy v" and "\<not> isArray v" and "converts v"
  shows "addBindKeyTo st k a = Inl (BindingNotArray v, st) \<and> getActionsForKey st k = v"
  using assms by (simp add: addBindKeyTo_def get_prop_def getActionsForKey_def)

theorem addBindKeyTo_invalid_state_witness:
  "bindings (constructor (\<lambda>_. []) 0 (Some [''A'' \<mapsto> JStr ''Jump''])) ''A'' = Some (JStr ''Jump'') \<and>
   truthy (JStr ''Jump'') \<and> \<not> isArray (JStr ''Jump'') \<and> converts (JStr ''Jump'') \<and>
   addBindKeyTo (constructor (\<lambda>_. []) 0 (Some [''A'' \<mapsto> JStr ''Jump''])) ''A'' (JStr ''Crouch'')
     = Inl (BindingNotArray (JStr ''Jump''),
            constructor (\<lambda>_. []) 0 (Some [''A'' \<mapsto> JStr ''Jump''])) \<and>
   getActionsForKey (constructor (\<lambda>_. []) 0 (Some [''A'' \<mapsto> JStr ''Jump''])) ''A''
     = JStr ''Jump''"
proof -
  let ?st = "constructor (\<lambda>_. []) 0 (Some [''A'' \<mapsto> JStr ''Jump''])"
  have b: "bindings ?st ''A'' = Some (JStr ''Jump'')"
    by (simp add: constructor_def)
  have t: "truthy (JStr ''Jump'')" by simp
  have n: "\<not> isArray (JStr ''Jump'')" by simp
  have c: "converts (JStr ''Jump'')" by simp
  from addBindKeyTo_invalid_state [OF b t n c, of "JStr ''Crouch''"] b t n c
  show ?thesis by simp
qed

subsection \<open>Replacing an entry\<close>

text \<open>
  Claim C3. For every key \<open>k\<close> and every action list \<open>L\<close> (the array at a reference
  \<open>r\<close>), after \<open>setBindingTo(k, L)\<close> the query \<open>getActionsForKey(k)\<close> returns \<open>L\<close>
  itself, and so the same elements in the same order, whatever the table held before.
\<close>

theorem setBindingTo_getActionsForKey:
  "getActionsForKey (setBindingTo st k (JArr r)) k = JArr r \<and>
   elements (setBindingTo st k (JArr r)) (getActionsForKey (setBindingTo st k (JArr r)) k)
     = Some (heap st r)"
proof -
  have "get_prop (setBindingTo st k (JArr r)) k = JArr r"
    using get_prop_setBindingTo_array [where h = "heap (setBindingTo st k (JArr r))" and st = st and k = k and r = r]
    by simp
  then show ?thesis
    by (simp add: getActionsForKey_def heap_setBindingTo)
qed

text \<open>
  Claim C4. For every key \<open>k\<close> and every action list \<open>L1\<close> (the array at \<open>r\<close>),
  \<open>setBindingTo(k, L1)\<close> followed by \<open>addBindKeyTo(k, "X")\<close> returns normally, and
  \<open>getActionsForKey(k)\<close> then gives the elements of \<open>L1\<close> followed by \<open>"X"\<close>.
\<close>

theorem setBindingTo_addBindKeyTo:
  "\<exists>st'. addBindKeyTo (setBindingTo st k (JArr r)) k (JStr x) = Inr st' \<and>
         getActionsForKey st' k = JArr r \<and>
         elements st' (getActionsForKey st' k) = Some (heap st r @ [JStr x])"
proof -
  let ?st = "setBindingTo st k (JArr r)"
  have g: "get_prop ?st k = JArr r"
    using get_prop_setBindingTo_array [where h = "heap ?st" and st = st and k = k and r = r] by simp
  have a: "addBindKeyTo ?st k (JStr x) =
           Inr (?st\<lparr>heap := (heap ?st)(r := heap ?st r @ push_args ?st (JStr x))\<rparr>)"
    by (rule addBindKeyTo_bound_array [OF g])
  have "getActionsForKey (?st\<lparr>heap := (heap ?st)(r := heap ?st r @ push_args ?st (JStr x))\<rparr>) k
        = JArr r"
    by (simp add: getActionsForKey_def get_prop_setBindingTo_array)
  then show ?thesis
    by (simp add: a push_args_def heap_setBindingTo)
qed

text \<open>
  Claim C10. After \<open>setBindingTo(k, [])\<close>, with a new empty array as the action list,
  \<open>isBound(k)\<close> is true and \<open>getActionsForKey(k)\<close> returns that array, which is
  empty, and not \<open>null\<close>.
\<close>

theorem setBindingTo_empty_list:
  "isBound (setBindingTo (snd (new_array st)) k (JArr (fst (new_array st)))) k \<and>
   getActionsForKey (setBindingTo (snd (new_array st)) k (JArr (fst (new_array st)))) k
     = JArr (fst (new_array st)) \<and>
   elements (setBindingTo (snd (new_array st)) k (JArr (fst (new_array st))))
     (getActionsForKey (setBindingTo (snd (new_array st)) k (JArr (fst (new_array st)))) k)
     = Some []"
proof -
  let ?r = "fst (new_array st)"
  let ?st = "setBindingTo (snd (new_array st)) k (JArr ?r)"
  have "get_prop ?st k = JArr ?r"
    using get_prop_setBindingTo_array [where h = "heap ?st" and st = "snd (new_array st)" and k = k and r = ?r] by simp
  then have g: "getActionsForKey ?st k = JArr ?r"
    by (simp add: getActionsForKey_def)
  have "heap ?st ?r = []"
    by (simp add: heap_setBindingTo new_array_def)
  with g show ?thesis
    by (simp add: isBound_def)
qed

subsection \<open>Queries\<close>

text \<open>
  Claim C6, as stated: for every key that has never been bound, \<open>getActionsForKey\<close>
  returns \<open>null\<close> and \<open>isBound\<close> returns false. The read goes on to the prototype
  of the table: on the empty registry the key \<open>"constructor"\<close> has no entry, and the
  query returns the function inherited from \<open>Object.prototype\<close> and \<open>isBound\<close>
  returns true.
\<close>

theorem unbound_key_inherited:
  "bindings (constructor (\<lambda>_. []) 0 None) ''constructor'' = None \<and>
   getActionsForKey (constructor (\<lambda>_. []) 0 None) ''constructor''
     = JFun ''Object.prototype.constructor'' \<and>
   isBound (constructor (\<lambda>_. []) 0 None) ''constructor'' = True"
  by (simp add: isBound_def getActionsForKey_def get_prop_def constructor_def inherited_def
      from_object_prototype_def object_prototype_names_def)

text \<open>
  Claim C6, amended: for every key \<open>k\<close> that has no entry in the table and names no
  property that the table inherits from its prototype (on the default table and on an
  object literal, the members of \<open>Object.prototype\<close>: \<open>__proto__\<close> and the names in
  \<open>object_prototype_names\<close>), \<open>getActionsForKey(k)\<close> returns \<open>null\<close> and
  \<open>isBound(k)\<close> returns false.
\<close>

theorem unbound_key_queries:
  "bindings st k = None \<Longrightarrow> inherited st k = None \<Longrightarrow>
   getActionsForKey st k = JNull \<and> isBound st k = False"
  by (simp add: isBound_def getActionsForKey_def get_prop_def)

theorem unbound_key_queries_witness:
  "bindings (constructor (\<lambda>_. []) 0 None) ''Enter'' = None \<and>
   inherited (constructor (\<lambda>_. []) 0 None) ''Enter'' = None \<and>
   getActionsForKey (constructor (\<lambda>_. []) 0 None) ''Enter'' = JNull \<and>
   isBound (constructor (\<lambda>_. []) 0 None) ''Enter'' = False"
proof -
  have h: "bindings (constructor (\<lambda>_. []) 0 None) ''Enter'' = None"
    by (simp add: constructor_def)
  have i: "inherited (constructor (\<lambda>_. []) 0 None) ''Enter'' = None"
    by (simp add: inherited_constructor object_prototype_names_def)
  from unbound_key_queries [OF h i] h i show ?thesis by simp
qed

text \<open>
  Claim C7. The registry constructed with the table \<open>{"A": ["Jump"]}\<close> (the array at
  reference 0) gives \<open>isBound("A")\<close> true and \<open>isBound("B")\<close> false, and the registry
  constructed with no argument has the empty table.
\<close>

theorem constructor_isBound:
  "isBound (constructor ((\<lambda>_. [])(0 := [JStr ''Jump''])) 1 (Some [''A'' \<mapsto> JArr 0])) ''A'' = True \<and>
   isBound (constructor ((\<lambda>_. [])(0 := [JStr ''Jump''])) 1 (Some [''A'' \<mapsto> JArr 0])) ''B'' = False \<and>
   bindings (constructor h n None) = Map.empty"
  by (simp add: isBound_def getActionsForKey_def get_prop_def constructor_def inherited_def
      from_object_prototype_def object_prototype_names_def)

subsection \<open>Which calls throw\<close>

text \<open>On a table that can be extended the calls do what the methods on \<open>state\<close> do.\<close>

lemma call_getActionsForKey_extensible:
  "kind reg = Extensible \<Longrightarrow>
   call_getActionsForKey reg k = Returns (getActionsForKey (inner reg) k) reg"
  by (simp add: call_getActionsForKey_def getActionsForKey_def Let_def)

lemma call_isBound_extensible:
  "kind reg = Extensible \<Longrightarrow>
   call_isBound reg k = Returns (JBool (isBound (inner reg) k)) reg"
  by (simp add: call_isBound_def call_getActionsForKey_def isBound_def getActionsForKey_def
      Let_def)


lemma call_setBindingTo_followed:
  "kind reg = Extensible \<Longrightarrow> \<not> reaches_setter (inner reg) k \<or> as_prototype v \<noteq> NotFollowed \<Longrightarrow>
   call_setBindingTo reg k v = Returns JUndefined (reg\<lparr>inner := setBindingTo (inner reg) k v\<rparr>)"
  by (auto simp add: call_setBindingTo_def setBindingTo_def Let_def reaches_setter_def
      split: proto_arg.splits)

lemma call_addBindKeyTo_extensible:
  "kind reg = Extensible \<Longrightarrow>
   call_addBindKeyTo reg k a =
     (case addBindKeyTo (inner reg) k a of
        Inl (e, st') \<Rightarrow> Throws e (reg\<lparr>inner := st'\<rparr>)
      | Inr st' \<Rightarrow> Returns JUndefined (reg\<lparr>inner := st'\<rparr>))"
  by (simp add: call_addBindKeyTo_def)

text \<open>With a table that is \<open>null\<close> every call throws.\<close>

lemma null_table_throws:
  assumes "kind reg = NullTable"
  shows "call_getActionsForKey reg k = Throws TypeError reg"
    and "call_isBound reg k = Throws TypeError reg"
    and "call_setBindingTo reg k v = Throws TypeError reg"
    and "call_addBindKeyTo reg k v = Throws TypeError reg"
  using assms
  by (simp_all add: call_getActionsForKey_def call_isBound_def call_setBindingTo_def
      call_addBindKeyTo_def)




subsection \<open>Other keys\<close>

text \<open>
  Claim C9, as stated: for distinct keys \<open>k\<close> and \<open>k'\<close>, \<open>addBindKeyTo(k, a)\<close> leaves
  what \<open>getActionsForKey(k')\<close> returns as it was. The table holds arrays by reference
  and \<open>push\<close> works in place: when \<open>"A"\<close> and \<open>"B"\<close> hold the same array
  \<open>["Jump"]\<close>, appending \<open>"X"\<close> under \<open>"A"\<close> makes the list under \<open>"B"\<close>
  \<open>["Jump","X"]\<close>.
\<close>

theorem shared_array_changes_other_key:
  "elements
     (constructor ((\<lambda>_. [])(0 := [JStr ''Jump''])) 1 (Some [''A'' \<mapsto> JArr 0, ''B'' \<mapsto> JArr 0]))
     (getActionsForKey
        (constructor ((\<lambda>_. [])(0 := [JStr ''Jump''])) 1
           (Some [''A'' \<mapsto> JArr 0, ''B'' \<mapsto> JArr 0])) ''B'')
     = Some [JStr ''Jump''] \<and>
   \<not> isl (addBindKeyTo
            (constructor ((\<lambda>_. [])(0 := [JStr ''Jump''])) 1
               (Some [''A'' \<mapsto> JArr 0, ''B'' \<mapsto> JArr 0])) ''A'' (JStr ''X'')) \<and>
   elements
     (projr (addBindKeyTo
               (constructor ((\<lambda>_. [])(0 := [JStr ''Jump''])) 1
                  (Some [''A'' \<mapsto> JArr 0, ''B'' \<mapsto> JArr 0])) ''A'' (JStr ''X'')))
     (getActionsForKey
        (projr (addBindKeyTo
                  (constructor ((\<lambda>_. [])(0 := [JStr ''Jump''])) 1
                     (Some [''A'' \<mapsto> JArr 0, ''B'' \<mapsto> JArr 0])) ''A'' (JStr ''X'')))
        ''B'')
     = Some [JStr ''Jump'', JStr ''X'']"
proof -
  let ?st = "constructor ((\<lambda>_. [])(0 := [JStr ''Jump''])) 1
               (Some [''A'' \<mapsto> JArr 0, ''B'' \<mapsto> JArr 0])"
  have a: "get_prop ?st ''A'' = JArr 0"
    by (simp add: get_prop_def constructor_def)
  show ?thesis
    unfolding addBindKeyTo_bound_array [OF a]
    by (simp add: push_args_def getActionsForKey_def get_prop_def constructor_def)
qed

text \<open>
  Claim C9, amended: for distinct keys \<open>k\<close> and \<open>k'\<close> of a well-formed registry (one
  whose table refers only to arrays that exist), \<open>setBindingTo(k, L)\<close> and
  \<open>addBindKeyTo(k, a)\<close>, whether it returns or raises, leave the table's entry for
  \<open>k'\<close> unchanged; \<open>setBindingTo\<close> changes no array, and \<open>addBindKeyTo\<close> changes
  nothing at all when it raises.

  When \<open>k'\<close> has an entry, \<open>getActionsForKey(k')\<close> returns the same value (the same
  array) before and after, and the elements of that array are as before, unless it is
  the very array that the read of \<open>k\<close> gives too: then \<open>addBindKeyTo(k, a)\<close> has
  appended the new actions to it.

  When \<open>k'\<close> has no entry, \<open>getActionsForKey(k')\<close> returns the same value before and
  after \<open>setBindingTo(k, L)\<close> unless that call replaces the prototype of the table
  (\<open>k\<close> is \<open>"__proto__"\<close>, without an entry, on a table that has a prototype), and
  before and after \<open>addBindKeyTo(k, a)\<close> unless the array it appends to is the
  prototype of the table.
\<close>

theorem other_key_frame:
  assumes "k \<noteq> k'" and "wf_state st"
  shows "bindings (setBindingTo st k v) k' = bindings st k' \<and>
         heap (setBindingTo st k v) = heap st \<and>
         ((bindings st k' \<noteq> None \<or> \<not> reaches_setter st k) \<longrightarrow>
            getActionsForKey (setBindingTo st k v) k' = getActionsForKey st k') \<and>
         (case addBindKeyTo st k a of
            Inl (e, st') \<Rightarrow> st' = st
          | Inr st' \<Rightarrow>
              bindings st' = bindings st \<and> proto st' = proto st \<and>
              ((bindings st k' \<noteq> None \<or> \<not> is_prototype st (get_prop st k)) \<longrightarrow>
                 getActionsForKey st' k' = getActionsForKey st k') \<and>
              (bindings st k' \<noteq> None \<longrightarrow>
                 elements st' (getActionsForKey st' k') =
                   (if isArray (get_prop st k) \<and> getActionsForKey st k' = get_prop st k
                    then map_option (\<lambda>xs. xs @ push_args st a)
                           (elements st (getActionsForKey st k'))
                    else elements st (getActionsForKey st k'))))"
proof -
  have set1: "bindings (setBindingTo st k v) k' = bindings st k'"
    using assms(1) by (simp add: setBindingTo_def split: proto_arg.splits)
  have set2: "heap (setBindingTo st k v) = heap st"
    by (rule heap_setBindingTo)
  have set3: "getActionsForKey (setBindingTo st k v) k' = getActionsForKey st k'"
    if c: "bindings st k' \<noteq> None \<or> \<not> reaches_setter st k"
  proof (cases "reaches_setter st k")
    case False
    then have "setBindingTo st k v = st\<lparr>bindings := (bindings st)(k \<mapsto> v)\<rparr>"
      by (simp add: setBindingTo_def)
    moreover have "get_prop (st\<lparr>bindings := (bindings st)(k \<mapsto> v)\<rparr>) k' = get_prop st k'"
      using assms(1) by (rule get_prop_other_entry)
    ultimately show ?thesis by (simp add: getActionsForKey_def)
  next
    case True
    with c obtain w where w: "bindings st k' = Some w" by auto
    with set1 have "bindings (setBindingTo st k v) k' = Some w" by simp
    with w show ?thesis by (simp add: getActionsForKey_def get_prop_own)
  qed
  have add: "(case addBindKeyTo st k a of
            Inl (e, st') \<Rightarrow> st' = st
          | Inr st' \<Rightarrow>
              bindings st' = bindings st \<and> proto st' = proto st \<and>
              ((bindings st k' \<noteq> None \<or> \<not> is_prototype st (get_prop st k)) \<longrightarrow>
                 getActionsForKey st' k' = getActionsForKey st k') \<and>
              (bindings st k' \<noteq> None \<longrightarrow>
                 elements st' (getActionsForKey st' k') =
                   (if isArray (get_prop st k) \<and> getActionsForKey st k' = get_prop st k
                    then map_option (\<lambda>xs. xs @ push_args st a)
                           (elements st (getActionsForKey st k'))
                    else elements st (getActionsForKey st k'))))"
  proof (cases st k rule: addBindKeyTo_cases)
    case scalar
    then show ?thesis by (simp add: addBindKeyTo_truthy_scalar)
  next
    case fresh
    let ?st' = "st\<lparr>heap := (heap st)(next_ref st := push_args (snd (new_array st)) a),
                   next_ref := Suc (next_ref st)\<rparr>"
    have r: "addBindKeyTo st k a = Inr ?st'"
      by (rule addBindKeyTo_falsy [OF fresh])
    have "\<forall>r. proto st = ArrayObject r \<longrightarrow> heap ?st' r = heap st r"
      using assms(2) by (auto simp add: wf_state_def)
    then have p: "get_prop ?st' k' = get_prop st k'"
      by (intro get_prop_cong) simp_all
    then have g: "getActionsForKey ?st' k' = getActionsForKey st k'"
      by (simp add: getActionsForKey_def)
    have e: "elements ?st' (getActionsForKey st k') = elements st (getActionsForKey st k')"
      if "bindings st k' \<noteq> None"
    proof -
      from that obtain w where w: "bindings st k' = Some w" by auto
      then have "getActionsForKey st k' \<noteq> JArr (next_ref st)"
        using assms(2)
        by (auto simp add: wf_state_def getActionsForKey_def get_prop_def Let_def
            split: if_splits)
      then show ?thesis by (rule elements_fresh)
    qed
    from fresh have "\<not> isArray (get_prop st k)"
      using isArray_truthy by blast
    with g e show ?thesis by (simp add: r)
  next
    case (array r)
    let ?st' = "st\<lparr>heap := (heap st)(r := heap st r @ push_args st a)\<rparr>"
    have r: "addBindKeyTo st k a = Inr ?st'"
      by (rule addBindKeyTo_bound_array [OF array])
    have g: "getActionsForKey ?st' k' = getActionsForKey st k'"
      if "bindings st k' \<noteq> None \<or> \<not> is_prototype st (get_prop st k)"
    proof -
      from that array
      have "bindings st k' \<noteq> None \<or> (\<forall>r'. proto st = ArrayObject r' \<longrightarrow> heap ?st' r' = heap st r')"
        by (auto simp add: is_prototype_def)
      then have "get_prop ?st' k' = get_prop st k'"
        by (intro get_prop_cong) simp_all
      then show ?thesis by (simp add: getActionsForKey_def)
    qed
    have e: "elements ?st' (getActionsForKey st k') =
               (if getActionsForKey st k' = JArr r
                then map_option (\<lambda>xs. xs @ push_args st a) (elements st (getActionsForKey st k'))
                else elements st (getActionsForKey st k'))"
      by (simp add: elements_heap_upd)
    from g e array show ?thesis by (simp add: r)
  qed
  from set1 set2 set3 add show ?thesis by simp
qed

theorem other_key_frame_witness:
  "''A'' \<noteq> ''B'' \<and>
   wf_state (constructor ((\<lambda>_. [])(0 := [JStr ''Jump''], 1 := [JStr ''Crouch''])) 2
               (Some [''A'' \<mapsto> JArr 0, ''B'' \<mapsto> JArr 1])) \<and>
   getActionsForKey
     (setBindingTo
        (constructor ((\<lambda>_. [])(0 := [JStr ''Jump''], 1 := [JStr ''Crouch''])) 2
           (Some [''A'' \<mapsto> JArr 0, ''B'' \<mapsto> JArr 1]))
        ''A'' (JArr 1)) ''B'' = JArr 1 \<and>
   elements
     (projr (addBindKeyTo
               (constructor ((\<lambda>_. [])(0 := [JStr ''Jump''], 1 := [JStr ''Crouch''])) 2
                  (Some [''A'' \<mapsto> JArr 0, ''B'' \<mapsto> JArr 1]))
               ''A'' (JStr ''X'')))
     (getActionsForKey
        (projr (addBindKeyTo
                  (constructor ((\<lambda>_. [])(0 := [JStr ''Jump''], 1 := [JStr ''Crouch''])) 2
                     (Some [''A'' \<mapsto> JArr 0, ''B'' \<mapsto> JArr 1]))
                  ''A'' (JStr ''X''))) ''B'')
     = Some [JStr ''Crouch'']"
proof -
  let ?st = "constructor ((\<lambda>_. [])(0 := [JStr ''Jump''], 1 := [JStr ''Crouch''])) 2
               (Some [''A'' \<mapsto> JArr 0, ''B'' \<mapsto> JArr 1])"
  have d: "''A'' \<noteq> ''B''" by simp
  have w: "wf_state ?st"
    by (auto simp add: wf_state_def constructor_def split: if_splits)
  have a: "get_prop ?st ''A'' = JArr 0"
    by (simp add: get_prop_def constructor_def)
  have b: "getActionsForKey ?st ''B'' = JArr 1"
    by (simp add: getActionsForKey_def get_prop_def constructor_def)
  have n: "bindings ?st ''B'' \<noteq> None"
    by (simp add: constructor_def)
  have h: "heap ?st 1 = [JStr ''Crouch'']"
    by (simp add: constructor_def)
  have r: "addBindKeyTo ?st ''A'' (JStr ''X'') =
           Inr (?st\<lparr>heap := (heap ?st)(0 := heap ?st 0 @ push_args ?st (JStr ''X''))\<rparr>)"
    by (rule addBindKeyTo_bound_array [OF a])
  note t = other_key_frame [OF d w, of "JArr 1" "JStr ''X''"]
  from t n have "getActionsForKey (setBindingTo ?st ''A'' (JArr 1)) ''B'' = getActionsForKey ?st ''B''"
    by blast
  with b have g: "getActionsForKey (setBindingTo ?st ''A'' (JArr 1)) ''B'' = JArr 1"
    by simp
  from t have "case addBindKeyTo ?st ''A'' (JStr ''X'') of
            Inl (e, st') \<Rightarrow> st' = ?st
          | Inr st' \<Rightarrow>
              bindings st' = bindings ?st \<and> proto st' = proto ?st \<and>
              ((bindings ?st ''B'' \<noteq> None \<or> \<not> is_prototype ?st (get_prop ?st ''A'')) \<longrightarrow>
                 getActionsForKey st' ''B'' = getActionsForKey ?st ''B'') \<and>
              (bindings ?st ''B'' \<noteq> None \<longrightarrow>
                 elements st' (getActionsForKey st' ''B'') =
                   (if isArray (get_prop ?st ''A'') \<and> getActionsForKey ?st ''B'' = get_prop ?st ''A''
                    then map_option (\<lambda>xs. xs @ push_args ?st (JStr ''X''))
                           (elements ?st (getActionsForKey ?st ''B''))
                    else elements ?st (getActionsForKey ?st ''B'')))"
    by blast
  with n have "elements (projr (addBindKeyTo ?st ''A'' (JStr ''X'')))
                 (getActionsForKey (projr (addBindKeyTo ?st ''A'' (JStr ''X''))) ''B'')
               = elements ?st (JArr 1)"
    unfolding r a b by simp
  with h have e: "elements (projr (addBindKeyTo ?st ''A'' (JStr ''X'')))
                 (getActionsForKey (projr (addBindKeyTo ?st ''A'' (JStr ''X''))) ''B'')
               = Some [JStr ''Crouch'']"
    by simp
  from d w g e show ?thesis by blast
qed

end
